theory Spec2Isabelle
  imports Main
begin

section \<open>JavaScript values, objects and the heap\<close>

text \<open>
  The package is TypeScript glue code over dynamically typed values. A value is a
  primitive or a reference to a heap cell; two references are the same value exactly
  when they point to the same cell, which is JavaScript's reference identity.
  Numbers are integers here: no arithmetic is performed by the package.
\<close>

type_synonym addr = nat

datatype jsval = JUndefined | JNull | JBool bool | JNum int | JStr string | JRef addr

text \<open>
  An exception is a value: the \<open>TypeError\<close> the language raises itself (property read
  on \<open>undefined\<close>, call of a non-function), or whatever a callback throws.
\<close>

datatype js_error = TypeError | Thrown jsval

type_synonym 'a result = "js_error + 'a"

text \<open>The own enumerable string-keyed properties of an object.\<close>

type_synonym jsobj = "string \<rightharpoonup> jsval"

text \<open>
  A callable is a function of its argument list that returns or throws. A heap cell
  holds the properties of the object and, for a function object, its behaviour.
\<close>

type_synonym closure = "jsval list \<Rightarrow> jsval result"

record cell =
  props :: jsobj
  callable :: "closure option"

type_synonym heap = "cell list"

definition cell_at :: "heap \<Rightarrow> addr \<Rightarrow> cell option" where
  "cell_at h a = (if a < length h then Some (h ! a) else None)"

text \<open>\<open>o.k\<close> on an object reference: the property, or \<open>undefined\<close> when it is absent.\<close>

definition get_prop :: "heap \<Rightarrow> addr \<Rightarrow> string \<Rightarrow> jsval" where
  "get_prop h a k =
     (case cell_at h a of
        None \<Rightarrow> JUndefined
      | Some c \<Rightarrow> (case props c k of None \<Rightarrow> JUndefined | Some v \<Rightarrow> v))"

text \<open>\<open>f(args)\<close> on a value: a \<open>TypeError\<close> unless the value is a function object.\<close>

definition call :: "heap \<Rightarrow> jsval \<Rightarrow> jsval list \<Rightarrow> jsval result" where
  "call h f args =
     (case f of
        JRef a \<Rightarrow>
          (case cell_at h a of
             None \<Rightarrow> Inl TypeError
           | Some c \<Rightarrow> (case callable c of None \<Rightarrow> Inl TypeError | Some g \<Rightarrow> g args))
      | _ \<Rightarrow> Inl TypeError)"

text \<open>Decimal rendering of an array index, the property key of a string's character.\<close>

fun show_nat :: "nat \<Rightarrow> string" where
  "show_nat n =
     (if n < 10 then [char_of (48 + n)]
      else show_nat (n div 10) @ [char_of (48 + n mod 10)])"

text \<open>
  What an object spread \<open>{...v}\<close> copies: nothing for \<open>undefined\<close>, \<open>null\<close>, booleans
  and numbers, the indexed characters of a string, the own enumerable properties of
  an object.
\<close>

definition own_props :: "heap \<Rightarrow> jsval \<Rightarrow> jsobj" where
  "own_props h v =
     (case v of
        JRef a \<Rightarrow> (case cell_at h a of None \<Rightarrow> Map.empty | Some c \<Rightarrow> props c)
      | JStr s \<Rightarrow> map_of (map (\<lambda>i. (show_nat i, JStr [s ! i])) [0..<length s])
      | _ \<Rightarrow> Map.empty)"

section \<open>The configuration schema\<close>

text \<open>
  Modelled from the spec: \<open>Modules.jsCodeAttribute\<close> and \<open>Modules.anyObjectAttribute\<close>
  belong to the host runtime and are not part of the sources. The spec describes an
  attribute descriptor as a default value with an override policy (replaceable, or
  final); the descriptor is a record of the two constructor arguments.
\<close>

datatype override_policy = Final

record 'a attribute =
  attr_value :: 'a
  attr_override :: "override_policy option"

definition jsCodeAttribute :: "'a \<Rightarrow> override_policy option \<Rightarrow> 'a attribute" where
  "jsCodeAttribute v ov = \<lparr>attr_value = v, attr_override = ov\<rparr>"

definition anyObjectAttribute :: "'a \<Rightarrow> override_policy option \<Rightarrow> 'a attribute" where
  "anyObjectAttribute v ov = \<lparr>attr_value = v, attr_override = ov\<rparr>"

text \<open>
  The module instance as the default \<open>vdomMap\<close> reads it (\<open>Modules.ImplementationTrait\<close>):
  its environment holds the ordered list of view factories. A factory has two callbacks,
  the compatibility predicate and the view producer; each returns or throws.
\<close>

record view_factory =
  isCompatible :: "jsval \<Rightarrow> bool result"
  view :: "jsval \<Rightarrow> jsval result"

record environment_t =
  viewsFactory :: "view_factory list"

record implementation_trait =
  environment :: environment_t

text \<open>
  \<open>Array.prototype.find\<close> calls the predicate on the elements in order and returns the
  first element it accepts, \<open>undefined\<close> (here \<open>None\<close>) when it accepts none. What
  the predicate throws ends the search and is thrown by \<open>find\<close>, whatever the later
  elements are.
\<close>

primrec array_find :: "('a \<Rightarrow> bool result) \<Rightarrow> 'a list \<Rightarrow> 'a option result" where
  "array_find p [] = Inr None"
| "array_find p (x # xs) =
     (case p x of
        Inl e \<Rightarrow> Inl e
      | Inr accepted \<Rightarrow> if accepted then Inr (Some x) else array_find p xs)"

text \<open>Reading \<open>view\<close> on \<open>undefined\<close> raises a \<open>TypeError\<close>.\<close>

definition vdomMap_value :: "jsval \<Rightarrow> implementation_trait \<Rightarrow> jsval result" where
  "vdomMap_value data module =
     (case array_find (\<lambda>factory. isCompatible factory data)
             (viewsFactory (environment module)) of
        Inl e \<Rightarrow> Inl e
      | Inr None \<Rightarrow> Inl TypeError
      | Inr (Some factory) \<Rightarrow> view factory data)"

definition outputs_value :: "jsval \<Rightarrow> jsobj" where
  "outputs_value state = Map.empty"

definition orderOperator_value :: "jsval \<Rightarrow> jsval \<Rightarrow> int" where
  "orderOperator_value data1 data2 = 0"

record schema_base =
  vdomMap :: "(jsval \<Rightarrow> implementation_trait \<Rightarrow> jsval result) attribute"
  outputs :: "(jsval \<Rightarrow> jsobj) attribute"
  state :: "jsobj attribute"

definition schemaCommonBase :: schema_base where
  "schemaCommonBase =
     \<lparr>vdomMap = jsCodeAttribute vdomMap_value None,
      outputs = jsCodeAttribute outputs_value (Some Final),
      state = anyObjectAttribute Map.empty (Some Final)\<rparr>"

record options_t =
  orderOperator :: "(jsval \<Rightarrow> jsval \<Rightarrow> int) attribute"

record schema_t = schema_base +
  containerAttributes :: "jsobj attribute"
  options :: options_t

record configuration_t =
  schema :: schema_t

text \<open>The spread of \<open>schemaCommonBase\<close> is the extension of its record by the two new fields.\<close>

definition configurationCommon :: configuration_t where
  "configurationCommon =
     \<lparr>schema =
        schema_base.extend schemaCommonBase
          \<lparr>containerAttributes =
             anyObjectAttribute [''class'' \<mapsto> JStr ''d-flex flex-column''] None,
           options = \<lparr>orderOperator = jsCodeAttribute orderOperator_value None\<rparr>\<rparr>\<rparr>"

text \<open>
  Modelled from the spec: the ordering of the children is the work of the projector,
  which is not part of the sources. The spec describes \<open>orderOperator\<close> as a comparator
  over two message payloads that the projector applies for ordering, a zero result
  meaning stable arrival order. The children are kept ordered as the messages arrive:
  an arriving child goes before the first placed child that the comparator puts after
  it (a result greater than zero), and after every placed child otherwise.
\<close>

primrec insert_child :: "(jsval \<Rightarrow> jsval \<Rightarrow> int) \<Rightarrow> jsval \<Rightarrow> jsval list \<Rightarrow> jsval list" where
  "insert_child cmp x [] = [x]"
| "insert_child cmp x (y # ys) =
     (if cmp y x > 0 then x # y # ys else y # insert_child cmp x ys)"

definition order_children :: "(jsval \<Rightarrow> jsval \<Rightarrow> int) \<Rightarrow> jsval list \<Rightarrow> jsval list" where
  "order_children cmp arrivals = foldl (\<lambda>placed x. insert_child cmp x placed) [] arrivals"

section \<open>The input declaration\<close>

text \<open>
  Modelled from the spec: \<open>Contracts.ofUnknown\<close> belongs to the host runtime and is not
  part of the sources. The spec describes it as the "accept anything" contract, with no
  shape validation: a contract is its acceptance test on a message, and this one
  accepts every message.
\<close>

datatype contract_t = Contract (accepts: "jsval \<Rightarrow> bool")

definition Contracts_ofUnknown :: contract_t where
  "Contracts_ofUnknown = Contract (\<lambda>message. True)"

record input_slot =
  description :: string
  contract :: contract_t

text \<open>The declaration is an object literal: its keys in order, each with its slot.\<close>

type_synonym inputs_t = "(string \<times> input_slot) list"

definition inputsCommon :: inputs_t where
  "inputsCommon =
     [(''input$'', \<lparr>description = ''the input stream'', contract = Contracts_ofUnknown\<rparr>)]"

section \<open>The state container\<close>



section \<open>The module factory\<close>

text \<open>
  \<open>Modules.Implementation\<close> is the host runtime's constructor; what the package
  supplies to it is the record of its two arguments. \<open>outputs\<close> and \<open>html\<close> are
  closures over \<open>configInstance\<close>: they read its properties in the heap of the moment
  they are called, while \<open>state\<close> is read when the factory runs. The object literal
  that \<open>html\<close> returns is given by its properties.
\<close>

record implementation =
  configuration :: configuration_t
  inputs :: inputs_t
  outputs :: "heap \<Rightarrow> addr \<Rightarrow> jsval result"
  state :: jsval
  html :: "heap \<Rightarrow> jsval \<Rightarrow> jsobj result"
  forwarded :: jsval

definition moduleCommon :: "heap \<Rightarrow> jsval \<Rightarrow> addr \<Rightarrow> closure \<Rightarrow> implementation" where
  "moduleCommon h0 fwdParams configInstance childrenStream =
     \<lparr>configuration = configurationCommon,
      inputs = inputsCommon,
      outputs = (\<lambda>h args.
         call h (get_prop h configInstance ''outputs'') [get_prop h args ''state'']),
      state = get_prop h0 configInstance ''state'',
      html = (\<lambda>h m.
         case childrenStream [m, get_prop h configInstance ''vDomMap''] of
           Inl e \<Rightarrow> Inl e
         | Inr children \<Rightarrow>
             Inr ((own_props h (get_prop h configInstance ''containerAttributes''))
                    (''children'' \<mapsto> children))),
      forwarded = fwdParams\<rparr>"

section \<open>Concrete inputs\<close>

text \<open>
  A heap in the shape the host runtime hands over, used to exercise the theorems below.
  Cell 0 is a configuration instance resolved from the schema, so the mapping function
  is under the schema's key \<open>vdomMap\<close>; cell 1 is that function; cell 2 is an \<open>outputs\<close>
  function that returns its argument; cell 3 is the state, holding a stream (cell 6)
  under \<open>selected$\<close>; cell 4 is the container attributes, with a \<open>children\<close> field of
  their own; cell 5 is an argument record of the output mapper; cell 7 is a children
  stream.
\<close>

definition stub_heap :: heap where
  "stub_heap =
     [\<lparr>props = [''vdomMap'' \<mapsto> JRef 1, ''outputs'' \<mapsto> JRef 2, ''state'' \<mapsto> JRef 3,
                ''containerAttributes'' \<mapsto> JRef 4],
       callable = None\<rparr>,
      \<lparr>props = Map.empty, callable = Some (\<lambda>args. Inr (JRef 7))\<rparr>,
      \<lparr>props = Map.empty,
       callable = Some (\<lambda>args. case args of [] \<Rightarrow> Inr JUndefined | s # _ \<Rightarrow> Inr s)\<rparr>,
      \<lparr>props = [''selected$'' \<mapsto> JRef 6], callable = None\<rparr>,
      \<lparr>props = [''class'' \<mapsto> JStr ''d-flex'', ''children'' \<mapsto> JNull], callable = None\<rparr>,
      \<lparr>props = [''state'' \<mapsto> JRef 3], callable = None\<rparr>,
      \<lparr>props = Map.empty, callable = None\<rparr>,
      \<lparr>props = Map.empty, callable = None\<rparr>]"

text \<open>The projector \<open>(m, vdomMap) => vdomMap\<close>: it hands back the mapping function it was given.\<close>

definition second_argument :: closure where
  "second_argument args = (case args of m # f # _ \<Rightarrow> Inr f | _ \<Rightarrow> Inr JUndefined)"

text \<open>A projector that returns a fixed children value.\<close>

definition fixed_children :: closure where
  "fixed_children args = Inr (JRef 7)"

text \<open>
  A module instance whose registry holds a factory that accepts nothing, then one that
  accepts exactly the message data at cell 5.
\<close>

definition stub_module :: implementation_trait where
  "stub_module =
     \<lparr>environment = \<lparr>viewsFactory =
        [\<lparr>isCompatible = (\<lambda>d. Inr False), view = (\<lambda>d. Inr JNull)\<rparr>,
         \<lparr>isCompatible = (\<lambda>d. Inr (d = JRef 5)), view = (\<lambda>d. Inr (JRef 7))\<rparr>]\<rparr>\<rparr>"

text \<open>
  The same registry, except that the predicate of the first factory throws.
\<close>

definition throwing_module :: implementation_trait where
  "throwing_module =
     \<lparr>environment = \<lparr>viewsFactory =
        [\<lparr>isCompatible = (\<lambda>d. Inl (Thrown (JStr ''boom''))), view = (\<lambda>d. Inr JNull)\<rparr>,
         \<lparr>isCompatible = (\<lambda>d. Inr (d = JRef 5)), view = (\<lambda>d. Inr (JRef 7))\<rparr>]\<rparr>\<rparr>"


text \<open>A comparator on numbers, by difference; other values compare equal.\<close>

definition by_number :: "jsval \<Rightarrow> jsval \<Rightarrow> int" where
  "by_number a b = (case (a, b) of (JNum x, JNum y) \<Rightarrow> x - y | _ \<Rightarrow> 0)"

section \<open>Defaults of the schema\<close>

text \<open>
  C6. The default \<open>outputs\<close> function of the configuration schema ignores its state
  argument and returns an empty mapping, for every state; it is the same attribute in
  \<open>schemaCommonBase\<close> and in the schema of \<open>configurationCommon\<close>.
\<close>

theorem outputs_default_empty:
  "attr_value (schema_base.outputs schemaCommonBase) st = Map.empty \<and>
   attr_value (schema_base.outputs (schema configurationCommon)) st = Map.empty"
  by (simp add: schemaCommonBase_def configurationCommon_def schema_base.defs
      jsCodeAttribute_def outputs_value_def)

lemma insert_child_zero:
  "insert_child orderOperator_value x ys = ys @ [x]"
  by (induction ys) (simp_all add: orderOperator_value_def)

lemma foldl_insert_child_zero:
  "foldl (\<lambda>placed x. insert_child orderOperator_value x placed) acc xs = acc @ xs"
  by (induction xs arbitrary: acc) (simp_all add: insert_child_zero)

lemma order_children_by_number:
  "order_children by_number [JNum 3, JNum 1, JNum 2, JNum 1] = [JNum 1, JNum 1, JNum 2, JNum 3]"
  by (simp add: order_children_def by_number_def)

text \<open>
  C7. The default \<open>orderOperator\<close> of the configuration schema returns 0 for every
  pair of inputs, so the children are not reordered: ordering any sequence of arrivals
  with it leaves the sequence as it arrived.
\<close>

theorem orderOperator_default_zero:
  "attr_value (orderOperator (options (schema configurationCommon))) a b = 0 \<and>
   order_children (attr_value (orderOperator (options (schema configurationCommon)))) arrivals
     = arrivals"
  by (simp add: configurationCommon_def schema_base.defs jsCodeAttribute_def
      order_children_def foldl_insert_child_zero)
    (simp add: orderOperator_value_def)

lemma array_find_first:
  "\<forall>g \<in> set pre. p g = Inr False \<Longrightarrow> p f0 = Inr True \<Longrightarrow>
   array_find p (pre @ f0 # post) = Inr (Some f0)"
  by (induction pre) simp_all



text \<open>
  C3. When the registry of the module's environment holds a factory \<open>f0\<close> whose
  predicate returns true on the data, and the predicate of every factory before it in
  the list returns false, the default \<open>vdomMap\<close> returns exactly what the view producer
  of \<open>f0\<close> returns on the data.
\<close>

theorem vdomMap_default_first_compatible:
  assumes "viewsFactory (environment module) = pre @ f0 # post"
    and "\<forall>g \<in> set pre. isCompatible g data = Inr False"
    and "isCompatible f0 data = Inr True"
  shows "attr_value (vdomMap schemaCommonBase) data module = view f0 data"
proof -
  have "array_find (\<lambda>f. isCompatible f data) (viewsFactory (environment module))
          = Inr (Some f0)"
    unfolding assms(1) using assms(2,3) by (rule array_find_first)
  then show ?thesis
    by (simp add: schemaCommonBase_def jsCodeAttribute_def vdomMap_value_def)
qed

theorem vdomMap_default_first_compatible_witness:
  "isCompatible (viewsFactory (environment stub_module) ! 0) (JRef 5) = Inr False \<and>
   isCompatible (viewsFactory (environment stub_module) ! 1) (JRef 5) = Inr True \<and>
   attr_value (vdomMap schemaCommonBase) (JRef 5) stub_module
     = view (viewsFactory (environment stub_module) ! 1) (JRef 5) \<and>
   view (viewsFactory (environment stub_module) ! 1) (JRef 5) = Inr (JRef 7)"
proof -
  let ?fs = "viewsFactory (environment stub_module)"
  have split: "?fs = [?fs ! 0] @ ?fs ! 1 # []"
    by (simp add: stub_module_def)
  have pre: "\<forall>g \<in> set [?fs ! 0]. isCompatible g (JRef 5) = Inr False"
    by (simp add: stub_module_def)
  have f0: "isCompatible (?fs ! 1) (JRef 5) = Inr True"
    by (simp add: stub_module_def)
  have v: "view (?fs ! 1) (JRef 5) = Inr (JRef 7)"
    by (simp add: stub_module_def)
  from pre have r: "isCompatible (?fs ! 0) (JRef 5) = Inr False"
    by simp
  show ?thesis
    by (intro conjI r f0 v vdomMap_default_first_compatible [OF split pre f0])
qed

text \<open>
  An accepting factory in the registry is not enough: when the predicate of an earlier
  factory throws, the default \<open>vdomMap\<close> throws that error and the view producer of the
  accepting factory is never called.
\<close>

theorem vdomMap_default_throwing_predicate:
  "isCompatible (viewsFactory (environment throwing_module) ! 0) (JRef 5)
     = Inl (Thrown (JStr ''boom'')) \<and>
   isCompatible (viewsFactory (environment throwing_module) ! 1) (JRef 5) = Inr True \<and>
   view (viewsFactory (environment throwing_module) ! 1) (JRef 5) = Inr (JRef 7) \<and>
   attr_value (vdomMap schemaCommonBase) (JRef 5) throwing_module
     = Inl (Thrown (JStr ''boom''))"
  by (simp add: schemaCommonBase_def jsCodeAttribute_def vdomMap_value_def
      throwing_module_def)



section \<open>The input declaration and the state container\<close>

text \<open>
  C9. The input declaration that the module factory passes on exposes exactly one
  channel, named \<open>input$\<close>, and its contract is \<open>Contracts.ofUnknown\<close>, the contract
  that accepts every message.
\<close>

theorem inputs_single_unknown:
  "map fst (inputs (moduleCommon hc fwdParams configInstance childrenStream))
     = [''input$''] \<and>
   map (contract \<circ> snd) (inputs (moduleCommon hc fwdParams configInstance childrenStream))
     = [Contracts_ofUnknown] \<and>
   accepts Contracts_ofUnknown message"
  by (simp add: moduleCommon_def inputsCommon_def Contracts_ofUnknown_def)





section \<open>The module factory\<close>

text \<open>
  C5. The output-derivation function of the module built by \<open>moduleCommon\<close>, applied
  to an argument record, returns exactly what the function stored under \<open>outputs\<close> in
  the configuration instance returns when applied to the \<open>state\<close> field of the record.
\<close>

theorem outputs_calls_configInstance_outputs:
  assumes "get_prop h configInstance ''outputs'' = JRef f"
    and "cell_at h f = Some c"
    and "callable c = Some g"
  shows "implementation.outputs (moduleCommon hc fwdParams configInstance childrenStream) h args
           = g [get_prop h args ''state'']"
  using assms by (simp add: moduleCommon_def call_def)

theorem outputs_calls_configInstance_outputs_witness:
  "get_prop stub_heap 0 ''outputs'' = JRef 2 \<and>
   cell_at stub_heap 2 = Some (stub_heap ! 2) \<and>
   callable (stub_heap ! 2) = Some (the (callable (stub_heap ! 2))) \<and>
   implementation.outputs (moduleCommon stub_heap JNull 0 fixed_children) stub_heap 5
     = the (callable (stub_heap ! 2)) [get_prop stub_heap 5 ''state''] \<and>
   implementation.outputs (moduleCommon stub_heap JNull 0 fixed_children) stub_heap 5
     = Inr (JRef 3)"
proof -
  have h1: "get_prop stub_heap 0 ''outputs'' = JRef 2"
    by (simp add: get_prop_def cell_at_def stub_heap_def)
  have h2: "cell_at stub_heap 2 = Some (stub_heap ! 2)"
    by (simp add: cell_at_def stub_heap_def)
  have h3: "callable (stub_heap ! 2) = Some (the (callable (stub_heap ! 2)))"
    by (simp add: stub_heap_def)
  note eq = outputs_calls_configInstance_outputs
    [OF h1 h2 h3, where hc = stub_heap and fwdParams = JNull
       and childrenStream = fixed_children and args = 5]
  have v: "the (callable (stub_heap ! 2)) [get_prop stub_heap 5 ''state''] = Inr (JRef 3)"
    by (simp add: get_prop_def cell_at_def stub_heap_def)
  show ?thesis
    by (intro conjI h1 h2 h3 eq trans [OF eq v])
qed

text \<open>
  C2. When the projector returns a children value, the view-producing function of the
  module built by \<open>moduleCommon\<close> returns the container attributes of the
  configuration instance merged with a \<open>children\<close> field holding that value: every
  field name of the container attributes is a field of the result, and \<open>children\<close> is
  the projector's output.
\<close>

theorem html_merges_containerAttributes:
  assumes "childrenStream [m, get_prop h configInstance ''vDomMap''] = Inr c"
  shows "html (moduleCommon hc fwdParams configInstance childrenStream) h m
           = Inr (own_props h (get_prop h configInstance ''containerAttributes'')
                    ++ [''children'' \<mapsto> c]) \<and>
         dom (own_props h (get_prop h configInstance ''containerAttributes''))
           \<subseteq> dom (own_props h (get_prop h configInstance ''containerAttributes'')
                    ++ [''children'' \<mapsto> c]) \<and>
         (own_props h (get_prop h configInstance ''containerAttributes'')
            ++ [''children'' \<mapsto> c]) ''children'' = Some c"
  using assms by (auto simp add: moduleCommon_def)

theorem html_merges_containerAttributes_witness:
  "fixed_children [JRef 5, get_prop stub_heap 0 ''vDomMap''] = Inr (JRef 7) \<and>
   (html (moduleCommon stub_heap JNull 0 fixed_children) stub_heap (JRef 5)
      = Inr (own_props stub_heap (get_prop stub_heap 0 ''containerAttributes'')
               ++ [''children'' \<mapsto> JRef 7]) \<and>
    dom (own_props stub_heap (get_prop stub_heap 0 ''containerAttributes''))
      \<subseteq> dom (own_props stub_heap (get_prop stub_heap 0 ''containerAttributes'')
               ++ [''children'' \<mapsto> JRef 7]) \<and>
    (own_props stub_heap (get_prop stub_heap 0 ''containerAttributes'')
       ++ [''children'' \<mapsto> JRef 7]) ''children'' = Some (JRef 7)) \<and>
   own_props stub_heap (get_prop stub_heap 0 ''containerAttributes'') ''class''
     = Some (JStr ''d-flex'')"
proof -
  have h: "fixed_children [JRef 5, get_prop stub_heap 0 ''vDomMap''] = Inr (JRef 7)"
    by (simp add: fixed_children_def)
  have v: "own_props stub_heap (get_prop stub_heap 0 ''containerAttributes'') ''class''
             = Some (JStr ''d-flex'')"
    by (simp add: own_props_def get_prop_def cell_at_def stub_heap_def)
  show ?thesis
    by (intro conjI h v html_merges_containerAttributes
      [where childrenStream = fixed_children and m = "JRef 5"
        and h = stub_heap and configInstance = 0 and c = "JRef 7" and hc = stub_heap
        and fwdParams = JNull, OF h])
qed

text \<open>
  C10. In the object returned by the view-producing function, the \<open>children\<close> field
  is the projector's output also when the container attributes have a \<open>children\<close>
  field of their own, which is overridden; every other field is exactly as in the
  container attributes, present with the same value or absent.
\<close>

theorem html_children_override:
  assumes "childrenStream [m, get_prop h configInstance ''vDomMap''] = Inr c"
  shows "\<exists>r. html (moduleCommon hc fwdParams configInstance childrenStream) h m = Inr r \<and>
           r ''children'' = Some c \<and>
           (\<forall>k. k \<noteq> ''children'' \<longrightarrow>
              r k = own_props h (get_prop h configInstance ''containerAttributes'') k)"
  using assms by (simp add: moduleCommon_def)

theorem html_children_override_witness:
  "fixed_children [JRef 5, get_prop stub_heap 0 ''vDomMap''] = Inr (JRef 7) \<and>
   (\<exists>r. html (moduleCommon stub_heap JNull 0 fixed_children) stub_heap (JRef 5) = Inr r \<and>
      r ''children'' = Some (JRef 7) \<and>
      (\<forall>k. k \<noteq> ''children'' \<longrightarrow>
         r k = own_props stub_heap (get_prop stub_heap 0 ''containerAttributes'') k)) \<and>
   own_props stub_heap (get_prop stub_heap 0 ''containerAttributes'') ''children''
     = Some JNull"
proof -
  have h: "fixed_children [JRef 5, get_prop stub_heap 0 ''vDomMap''] = Inr (JRef 7)"
    by (simp add: fixed_children_def)
  have v: "own_props stub_heap (get_prop stub_heap 0 ''containerAttributes'') ''children''
             = Some JNull"
    by (simp add: own_props_def get_prop_def cell_at_def stub_heap_def)
  show ?thesis
    by (intro conjI h v html_children_override
      [where childrenStream = fixed_children and m = "JRef 5"
        and h = stub_heap and configInstance = 0 and c = "JRef 7" and hc = stub_heap
        and fwdParams = JNull, OF h])
qed

text \<open>
  C1. The factory is meant to invoke the projector with the module instance and the
  mapping function of the configuration instance, which the schema stores under
  \<open>vdomMap\<close>. The view-producing function reads the key \<open>vDomMap\<close> instead: on a
  configuration instance resolved from the schema, whose mapping function (cell 1) is
  under \<open>vdomMap\<close>, a projector that hands back its second argument yields
  \<open>undefined\<close>, not the mapping function.
\<close>

theorem moduleCommon_vDomMap_key:
  "get_prop stub_heap 0 ''vdomMap'' = JRef 1 \<and>
   second_argument [JRef 5, get_prop stub_heap 0 ''vdomMap''] = Inr (JRef 1) \<and>
   (case html (moduleCommon stub_heap JNull 0 second_argument) stub_heap (JRef 5) of
      Inl e \<Rightarrow> None
    | Inr r \<Rightarrow> r ''children'') = Some JUndefined"
  by (simp add: moduleCommon_def stub_heap_def second_argument_def get_prop_def cell_at_def)

end
